theory Spec2Isabelle
  imports Complex_Main
begin

section \<open>PowerPilot: forecast loop, anomaly scorer and trend label\<close>

text \<open>
  The services of \<^verbatim>\<open>backend/app/services\<close> are embedded as functions over an explicit
  database state. Python floats are idealised as \<^typ>\<open>real\<close> (no rounding error, no NaN or
  infinity). A naive \<^verbatim>\<open>datetime\<close> is the number of microseconds since
  1970-01-01T00:00:00; the year-9999 limit of \<^verbatim>\<open>datetime\<close> is not modelled (stored
  timestamps come from the CSV ingestion, whose parser keeps them before the year 2263).
  The current time, the loaded models and the draws of the random generator are read from
  the environment by the source; here they are arguments.
\<close>

subsection \<open>Dates and times\<close>

type_synonym datetime = int

definition timedelta_hours :: "int \<Rightarrow> int" where
  "timedelta_hours i = i * 3600000000"

definition dt_date :: "datetime \<Rightarrow> int" where
  \<comment> \<open>\<^verbatim>\<open>.date()\<close>, as days since 1970-01-01\<close>
  "dt_date ts = ts div 86400000000"

definition dt_hour :: "datetime \<Rightarrow> int" where
  "dt_hour ts = (ts div 3600000000) mod 24"

definition dt_weekday :: "datetime \<Rightarrow> int" where
  \<comment> \<open>Monday is 0; 1970-01-01 was a Thursday\<close>
  "dt_weekday ts = (dt_date ts + 3) mod 7"

definition dt_month :: "datetime \<Rightarrow> int" where
  \<comment> \<open>month of the proleptic Gregorian calendar, 1 to 12\<close>
  "dt_month ts =
     (let z = dt_date ts + 719468;
          doe = z mod 146097;
          yoe = (doe - doe div 1460 + doe div 36524 - doe div 146096) div 365;
          doy = doe - (365 * yoe + yoe div 4 - yoe div 100);
          mp = (5 * doy + 2) div 153
      in if mp < 10 then mp + 3 else mp - 9)"

subsection \<open>Numeric helpers\<close>

definition mean :: "real list \<Rightarrow> real" where
  \<comment> \<open>\<^verbatim>\<open>np.mean\<close>\<close>
  "mean xs = sum_list xs / real (length xs)"

definition std :: "real list \<Rightarrow> real" where
  \<comment> \<open>\<^verbatim>\<open>np.std\<close>, population standard deviation (ddof = 0)\<close>
  "std xs = sqrt (mean (map (\<lambda>x. (x - mean xs)\<^sup>2) xs))"

definition or_else :: "real \<Rightarrow> real \<Rightarrow> real" where
  \<comment> \<open>Python's \<^verbatim>\<open>x or d\<close> on floats: \<^verbatim>\<open>d\<close> exactly when \<^verbatim>\<open>x\<close> is zero\<close>
  "or_else x d = (if x = 0 then d else x)"

definition round_half_even :: "real \<Rightarrow> int" where
  "round_half_even x =
     (let f = \<lfloor>x\<rfloor>; d = x - of_int f
      in if d < 1 / 2 then f else if 1 / 2 < d then f + 1
         else if even f then f else f + 1)"

definition py_round :: "real \<Rightarrow> nat \<Rightarrow> real" where
  \<comment> \<open>\<^verbatim>\<open>round(x, n)\<close>: the nearest multiple of \<open>10\<^sup>-\<^sup>n\<close>, a tie going to the even one\<close>
  "py_round x n = of_int (round_half_even (x * 10 ^ n)) / 10 ^ n"

definition last_n :: "nat \<Rightarrow> 'a list \<Rightarrow> 'a list" where
  \<comment> \<open>the slice \<^verbatim>\<open>xs[-k:]\<close>; \<^verbatim>\<open>xs[-0:]\<close> is the whole list\<close>
  "last_n k xs = (if k = 0 then xs else drop (length xs - k) xs)"

function py_range :: "int \<Rightarrow> int \<Rightarrow> int \<Rightarrow> int list" where
  \<comment> \<open>\<^verbatim>\<open>range(a, b, s)\<close> for a positive step (the source uses steps 1 and 4)\<close>
  "py_range a b s = (if 0 < s \<and> a < b then a # py_range (a + s) b s else [])"
  by pat_completeness auto
termination
  by (relation "measure (\<lambda>(a, b, s). nat (b - a))") auto

declare py_range.simps [simp del]

subsection \<open>Rows, schemas and the database\<close>

record stamped =
  timestamp :: datetime

record energy_data = stamped +
  consumption_kwh :: real
  hour :: int
  day :: int
  month :: int
  is_weekend :: bool

record prediction_point = stamped +
  predicted_value :: real

record prediction_data_create = prediction_point +
  prediction_horizon :: int

record prediction_response =
  horizon :: string
  predictions :: "prediction_point list"
  model_accuracy :: "real option"

record anomaly_data_create = stamped +
  consumption :: real
  is_anomaly :: bool
  anomaly_score :: "real option"

record anomaly_data_response = anomaly_data_create +
  id_no :: int

record anomaly_list_response =
  total_records :: int
  total_anomalies :: int
  anomaly_rate :: real
  anomalies :: "anomaly_data_response list"

text \<open>
  The three tables. A stored prediction or anomaly row is kept as the columns the service
  supplies; the generated \<^verbatim>\<open>id\<close> and \<^verbatim>\<open>created_at\<close> columns are left out.
\<close>

record database =
  energy_table :: "energy_data list"
  prediction_table :: "prediction_data_create list"
  anomaly_table :: "anomaly_data_create list"

definition energy_get_all :: "nat \<Rightarrow> database \<Rightarrow> energy_data list" where
  \<comment> \<open>\<^verbatim>\<open>EnergyRepository.get_all\<close>: ordered by timestamp, offset 0, at most \<^verbatim>\<open>limit\<close> rows\<close>
  "energy_get_all limit db = take limit (sort_key timestamp (energy_table db))"

definition pred_delete_all :: "database \<Rightarrow> database" where
  "pred_delete_all db = db\<lparr>prediction_table := []\<rparr>"

definition pred_create_bulk :: "prediction_data_create list \<Rightarrow> database \<Rightarrow> database" where
  "pred_create_bulk records db = db\<lparr>prediction_table := prediction_table db @ records\<rparr>"

definition anomaly_delete_all :: "database \<Rightarrow> database" where
  "anomaly_delete_all db = db\<lparr>anomaly_table := []\<rparr>"

definition anomaly_create_bulk :: "anomaly_data_create list \<Rightarrow> database \<Rightarrow> database" where
  "anomaly_create_bulk records db = db\<lparr>anomaly_table := anomaly_table db @ records\<rparr>"

subsection \<open>Models loaded from disk\<close>

text \<open>
  A regressor is what the service uses of it: its prediction for one feature row, and
  whether it has an attribute \<^verbatim>\<open>score\<close> (\<open>None\<close> when it has none, otherwise the quality
  metric that attribute reports). A classifier scores and labels one feature row at a time.
\<close>

record predictor =
  model_predict :: "real list \<Rightarrow> real"
  model_score :: "real option"

record classifier =
  clf_decision_function :: "real list \<Rightarrow> real"
  clf_predict :: "real list \<Rightarrow> int"

subsection \<open>The forecast loop of \<^verbatim>\<open>PredictionService.predict\<close>\<close>

definition build_features :: "datetime \<Rightarrow> real \<Rightarrow> real \<Rightarrow> real \<Rightarrow> real \<Rightarrow> real list" where
  "build_features dt rolling_mean rolling_std lag_1h lag_24h =
     (let hour = dt_hour dt;
          day = dt_weekday dt;
          month = dt_month dt;
          is_weekend = (if day \<ge> 5 then 1 else 0 :: int)
      in [of_int hour, of_int day, of_int month, of_int is_weekend,
          rolling_mean, rolling_std, lag_1h, lag_24h])"

record rolling_state =
  rolling_mean :: real
  rolling_std :: real
  recent_values :: "real list"
  lag_24_buffer :: "real list"

definition init_state :: "real list \<Rightarrow> rolling_state" where
  \<comment> \<open>lines 64 to 66 and 82 to 83\<close>
  "init_state values =
     (let rolling_window = min 24 (length values)
      in \<lparr>rolling_mean = mean (last_n rolling_window values),
          rolling_std = or_else (std (last_n rolling_window values)) 1,
          recent_values = (if length values \<ge> 24 then last_n 24 values else values),
          lag_24_buffer = (if length values \<ge> 24 then last_n 24 values else values)\<rparr>)"

definition horizon_steps :: "string \<Rightarrow> datetime \<Rightarrow> datetime list" where
  \<comment> \<open>lines 73 to 78; \<^verbatim>\<open>ml/predict.py\<close> builds its steps by the same three branches\<close>
  "horizon_steps hz base_ts =
     (if hz = ''next_hour'' then [base_ts + timedelta_hours 1]
      else if hz = ''next_day'' then map (\<lambda>i. base_ts + timedelta_hours i) (py_range 1 25 1)
      else map (\<lambda>i. base_ts + timedelta_hours i) (py_range 1 (24 * 7 + 1) 4))"

definition lag_1h_of :: "rolling_state \<Rightarrow> real" where
  "lag_1h_of st = (if recent_values st \<noteq> [] then last (recent_values st) else rolling_mean st)"

definition lag_24h_of :: "rolling_state \<Rightarrow> real" where
  "lag_24h_of st =
     (if length (lag_24_buffer st) \<ge> 24 then hd (lag_24_buffer st) else rolling_mean st)"

definition random_normal :: "real \<Rightarrow> real \<Rightarrow> real \<Rightarrow> real" where
  \<comment> \<open>\<^verbatim>\<open>np.random.normal(loc, scale)\<close>, given the standard normal draw \<open>z\<close> it consumes\<close>
  "random_normal z loc scale = loc + scale * z"

definition pred_val_of :: "predictor option \<Rightarrow> real \<Rightarrow> rolling_state \<Rightarrow> datetime \<Rightarrow> real" where
  \<comment> \<open>lines 86 to 98: the clamped prediction of one step\<close>
  "pred_val_of model z st ts =
     (let lag_1h = lag_1h_of st; lag_24h = lag_24h_of st
      in case model of
           Some m \<Rightarrow>
             max 0 (model_predict m
                      (build_features ts (rolling_mean st) (rolling_std st) lag_1h lag_24h))
         | None \<Rightarrow>
             (let hour_factor = 1 + 3 / 10 * sin (of_int (dt_hour ts - 6) * pi / 12);
                  weekend_factor = (if dt_weekday ts \<ge> 5 then 85 / 100 else 1)
              in max 0 (rolling_mean st * hour_factor * weekend_factor
                        + random_normal z 0 (rolling_std st * (1 / 10)))))"

definition push_24 :: "real list \<Rightarrow> real \<Rightarrow> real list" where
  \<comment> \<open>\<^verbatim>\<open>append\<close>, then \<^verbatim>\<open>pop(0)\<close> when the list has more than 24 entries\<close>
  "push_24 xs v = (let ys = xs @ [v] in if length ys > 24 then tl ys else ys)"

definition update_state :: "rolling_state \<Rightarrow> real \<Rightarrow> rolling_state" where
  \<comment> \<open>lines 103 to 110\<close>
  "update_state st pred_val =
     (let recent = push_24 (recent_values st) pred_val;
          lag_buf = push_24 (lag_24_buffer st) pred_val
      in \<lparr>rolling_mean = mean recent,
          rolling_std = or_else (std recent) 1,
          recent_values = recent,
          lag_24_buffer = lag_buf\<rparr>)"

text \<open>
  The loop over the steps. \<open>rnd i\<close> is the standard normal draw that step \<open>i\<close> of the
  fallback path consumes. The result is the list of points and the state after the last
  step.
\<close>

fun forecast_loop ::
  "predictor option \<Rightarrow> (nat \<Rightarrow> real) \<Rightarrow> nat \<Rightarrow> rolling_state \<Rightarrow> datetime list
     \<Rightarrow> prediction_point list \<times> rolling_state" where
  "forecast_loop model rnd i st [] = ([], st)"
| "forecast_loop model rnd i st (ts # rest) =
     (let pred_val = pred_val_of model (rnd i) st ts;
          point = \<lparr>timestamp = ts, predicted_value = py_round pred_val 3\<rparr>;
          (points, st') = forecast_loop model rnd (Suc i) (update_state st pred_val) rest
      in (point # points, st'))"

definition base_ts_of :: "datetime \<Rightarrow> energy_data \<Rightarrow> energy_data list \<Rightarrow> datetime" where
  \<comment> \<open>lines 68 to 70, for the non-empty \<^verbatim>\<open>all_data = d # ds\<close>\<close>
  "base_ts_of now d ds = max (foldl max (timestamp d) (map timestamp ds)) now"

definition horizon_hours :: "string \<Rightarrow> int" where
  "horizon_hours hz = (if hz = ''next_hour'' then 1 else (if hz = ''next_day'' then 24 else 168))"

definition predict ::
  "predictor option \<Rightarrow> (nat \<Rightarrow> real) \<Rightarrow> datetime \<Rightarrow> string \<Rightarrow> database
     \<Rightarrow> prediction_response \<times> database" where
  "predict model rnd now hz db =
     (case energy_get_all 10000 db of
        [] \<Rightarrow> (\<lparr>horizon = hz, predictions = [], model_accuracy = None\<rparr>, db)
      | d # ds \<Rightarrow>
         (let values = map consumption_kwh (d # ds);
              steps = horizon_steps hz (base_ts_of now d ds);
              preds = fst (forecast_loop model rnd 0 (init_state values) steps);
              db_records = map (\<lambda>p. \<lparr>timestamp = timestamp p,
                                        predicted_value = predicted_value p,
                                        prediction_horizon = horizon_hours hz\<rparr>) preds;
              db' = pred_create_bulk db_records (pred_delete_all db);
              accuracy = (case model of
                            None \<Rightarrow> None
                          | Some m \<Rightarrow> (if model_score m \<noteq> None then Some (92 / 100) else None))
          in (\<lparr>horizon = hz, predictions = preds, model_accuracy = accuracy\<rparr>, db')))"

text \<open>The rolling state at the start of iteration \<open>k\<close> of the loop that \<open>predict\<close> runs.\<close>

definition state_at ::
  "predictor option \<Rightarrow> (nat \<Rightarrow> real) \<Rightarrow> datetime \<Rightarrow> string \<Rightarrow> energy_data \<Rightarrow> energy_data list
     \<Rightarrow> nat \<Rightarrow> rolling_state" where
  "state_at model rnd now hz d ds k =
     snd (forecast_loop model rnd 0 (init_state (map consumption_kwh (d # ds)))
            (take k (horizon_steps hz (base_ts_of now d ds))))"

subsection \<open>\<^verbatim>\<open>AnomalyService.detect_and_store\<close>\<close>

definition anomaly_features :: "energy_data \<Rightarrow> real list" where
  \<comment> \<open>one row of \<^verbatim>\<open>df[["consumption_kwh", "hour", "day", "month"]].values\<close>\<close>
  "anomaly_features d = [consumption_kwh d, of_int (hour d), of_int (day d), of_int (month d)]"

definition z_scores_of :: "real list \<Rightarrow> real list" where
  \<comment> \<open>lines 56 to 58 on the consumption column\<close>
  "z_scores_of col =
     (let mean_v = mean col; std_v = or_else (std col) 1
      in map (\<lambda>x. \<bar>(x - mean_v) / std_v\<bar>) col)"

definition score_rows :: "classifier option \<Rightarrow> energy_data list \<Rightarrow> (bool \<times> real) list" where
  \<comment> \<open>lines 50 to 60: \<^verbatim>\<open>is_anomaly[i]\<close> and \<^verbatim>\<open>scores[i]\<close> of every row\<close>
  "score_rows model all_data =
     (case model of
        Some m \<Rightarrow>
          map (\<lambda>d. (clf_predict m (anomaly_features d) = - 1,
                     clf_decision_function m (anomaly_features d))) all_data
      | None \<Rightarrow>
          map (\<lambda>z. (z > 3, - z)) (z_scores_of (map (\<lambda>d. hd (anomaly_features d)) all_data)))"

definition anomaly_records :: "classifier option \<Rightarrow> energy_data list \<Rightarrow> anomaly_data_create list" where
  \<comment> \<open>lines 62 to 70\<close>
  "anomaly_records model all_data =
     map (\<lambda>(d, flag, score).
            \<lparr>timestamp = timestamp d, consumption = consumption_kwh d,
             is_anomaly = flag, anomaly_score = Some score\<rparr>)
         (zip all_data (score_rows model all_data))"

definition count_true :: "bool list \<Rightarrow> int" where
  \<comment> \<open>\<^verbatim>\<open>int(np.sum(is_anomaly))\<close>\<close>
  "count_true bs = sum_list (map (\<lambda>b. if b then 1 else 0) bs)"

definition anomaly_responses :: "anomaly_data_create list \<Rightarrow> anomaly_data_response list" where
  \<comment> \<open>lines 79 to 89: the flagged records, numbered from 1\<close>
  "anomaly_responses records =
     map (\<lambda>(i, r). \<lparr>timestamp = timestamp r, consumption = consumption r,
                     is_anomaly = is_anomaly r, anomaly_score = anomaly_score r,
                     id_no = int i\<rparr>)
         (zip [1 ..< Suc (length (filter is_anomaly records))] (filter is_anomaly records))"

definition detect_and_store ::
  "classifier option \<Rightarrow> database \<Rightarrow> anomaly_list_response \<times> database" where
  "detect_and_store model db =
     (case energy_get_all 10000 db of
        [] \<Rightarrow> (\<lparr>total_records = 0, total_anomalies = 0, anomaly_rate = 0, anomalies = []\<rparr>, db)
      | d # ds \<Rightarrow>
         (let all_data = d # ds;
              records = anomaly_records model all_data;
              db' = anomaly_create_bulk records (anomaly_delete_all db);
              total = int (length records);
              anomalies_count = count_true (map fst (score_rows model all_data));
              rate = (if total > 0
                      then py_round (of_int anomalies_count / of_int total * 100) 2 else 0)
          in (\<lparr>total_records = total, total_anomalies = anomalies_count,
               anomaly_rate = rate, anomalies = anomaly_responses records\<rparr>, db')))"

subsection \<open>The trend label of \<^verbatim>\<open>EnergyService.get_analysis\<close>\<close>





subsection \<open>Auxiliary definitions\<close>

text \<open>The invariant of the loop: both buffers within capacity, and the rolling mean is the
  mean of the rolling window.\<close>

definition state_ok :: "rolling_state \<Rightarrow> bool" where
  "state_ok st \<longleftrightarrow>
     length (recent_values st) \<le> 24 \<and> length (lag_24_buffer st) \<le> 24 \<and>
     rolling_mean st = mean (recent_values st)"

text \<open>A stored reading as \<^verbatim>\<open>process_csv\<close> builds it from a timestamp and a value.\<close>

definition energy_row :: "datetime \<Rightarrow> real \<Rightarrow> energy_data" where
  "energy_row ts v =
     \<lparr>timestamp = ts, consumption_kwh = v, hour = dt_hour ts, day = dt_weekday ts,
      month = dt_month ts, is_weekend = (dt_weekday ts = 5 \<or> dt_weekday ts = 6)\<rparr>"

text \<open>A regressor that answers \<open>c\<close> on every row and has no attribute \<^verbatim>\<open>score\<close>.\<close>

definition const_model :: "real \<Rightarrow> predictor" where
  "const_model c = \<lparr>model_predict = (\<lambda>_. c), model_score = None\<rparr>"

text \<open>Twenty-four hourly readings with the values 0 to 23, and a database that holds
  the given readings and no stored results.\<close>

definition day_history :: "energy_data list" where
  "day_history = map (\<lambda>i. energy_row (timedelta_hours (int i)) (real i)) [0 ..< 24]"

definition db_of :: "energy_data list \<Rightarrow> database" where
  "db_of rows = \<lparr>energy_table = rows, prediction_table = [], anomaly_table = []\<rparr>"

text \<open>A classifier that flags a row when its consumption exceeds 5, and three hourly
  readings.\<close>

definition threshold_clf :: classifier where
  "threshold_clf = \<lparr>clf_decision_function = (\<lambda>f. 5 - hd f),
                     clf_predict = (\<lambda>f. if hd f > 5 then - 1 else 1)\<rparr>"

definition three_readings :: "energy_data list" where
  "three_readings = [energy_row 0 1, energy_row 3600000000 10, energy_row 7200000000 2]"





section \<open>Verified properties\<close>

subsection \<open>Lemmas on the forecast loop\<close>

lemma push_24_length: "length xs \<le> 24 \<Longrightarrow> length (push_24 xs v) \<le> 24"
  by (cases xs) (auto simp: push_24_def Let_def)

lemma push_24_eq:
  "length xs \<le> 24 \<Longrightarrow> push_24 xs v = (if length xs = 24 then tl xs @ [v] else xs @ [v])"
  by (cases xs) (auto simp: push_24_def Let_def)

lemma last_n_min:
  "last_n (min 24 (length xs)) xs = (if length xs \<ge> 24 then last_n 24 xs else xs)"
  by (auto simp: last_n_def min_def)

lemma init_state_ok: "state_ok (init_state vs)"
  by (auto simp: state_ok_def init_state_def Let_def last_n_min) (auto simp: last_n_def)

lemma update_state_ok: "state_ok st \<Longrightarrow> state_ok (update_state st v)"
  by (simp add: state_ok_def update_state_def Let_def push_24_length)

lemma forecast_loop_Cons_fst:
  "fst (forecast_loop model rnd i st (ts # rest)) =
     \<lparr>timestamp = ts, predicted_value = py_round (pred_val_of model (rnd i) st ts) 3\<rparr>
       # fst (forecast_loop model rnd (Suc i)
                (update_state st (pred_val_of model (rnd i) st ts)) rest)"
  by (simp add: Let_def case_prod_beta)

lemma forecast_loop_Cons_snd:
  "snd (forecast_loop model rnd i st (ts # rest)) =
     snd (forecast_loop model rnd (Suc i)
            (update_state st (pred_val_of model (rnd i) st ts)) rest)"
  by (simp add: Let_def case_prod_beta)

lemma forecast_loop_ok:
  "state_ok st \<Longrightarrow> state_ok (snd (forecast_loop model rnd i st steps))"
  by (induction steps arbitrary: i st)
     (simp_all add: forecast_loop_Cons_snd update_state_ok del: forecast_loop.simps(2))

lemma forecast_loop_snoc:
  "snd (forecast_loop model rnd i st (steps @ [ts])) =
     update_state (snd (forecast_loop model rnd i st steps))
       (pred_val_of model (rnd (i + length steps)) (snd (forecast_loop model rnd i st steps)) ts)"
  by (induction steps arbitrary: i st)
     (simp_all add: forecast_loop_Cons_snd del: forecast_loop.simps(2))

lemma forecast_loop_timestamps:
  "map timestamp (fst (forecast_loop model rnd i st steps)) = steps"
  by (induction steps arbitrary: i st)
     (simp_all add: forecast_loop_Cons_fst del: forecast_loop.simps(2))

lemma state_at_ok: "state_ok (state_at model rnd now hz d ds k)"
  unfolding state_at_def by (rule forecast_loop_ok) (rule init_state_ok)

lemma take_1_day: "take (Suc 0) (horizon_steps ''next_day'' b) = [b + timedelta_hours 1]"
  by (simp add: horizon_steps_def py_range.simps [of 1 25 1])

lemma energy_get_all_Nil: "energy_get_all 10000 db = [] \<longleftrightarrow> energy_table db = []"
proof -
  have "length (sort_key timestamp (energy_table db)) = length (energy_table db)" by simp
  then show ?thesis
    unfolding energy_get_all_def by (cases "energy_table db") (auto simp del: length_sort)
qed

lemma predict_Cons:
  "energy_get_all 10000 db = d # ds \<Longrightarrow>
   predict model rnd now hz db =
     (let preds = fst (forecast_loop model rnd 0 (init_state (map consumption_kwh (d # ds)))
                         (horizon_steps hz (base_ts_of now d ds)))
      in (\<lparr>horizon = hz, predictions = preds,
           model_accuracy = (case model of None \<Rightarrow> None
              | Some m \<Rightarrow> (if model_score m \<noteq> None then Some (92 / 100) else None))\<rparr>,
          db\<lparr>prediction_table :=
               map (\<lambda>p. \<lparr>timestamp = timestamp p, predicted_value = predicted_value p,
                          prediction_horizon = horizon_hours hz\<rparr>) preds\<rparr>))"
  by (simp add: predict_def Let_def pred_create_bulk_def pred_delete_all_def)


lemma state_at_Suc:
  assumes "k < length (horizon_steps hz (base_ts_of now d ds))"
  shows "state_at model rnd now hz d ds (Suc k) =
     update_state (state_at model rnd now hz d ds k)
       (pred_val_of model (rnd k) (state_at model rnd now hz d ds k)
          (horizon_steps hz (base_ts_of now d ds) ! k))"
  using assms by (simp add: state_at_def take_Suc_conv_app_nth forecast_loop_snoc)

lemma horizon_steps_hour_len: "0 < length (horizon_steps ''next_hour'' b)"
  by (simp add: horizon_steps_def)

lemma day_history_Cons:
  "day_history = energy_row 0 0 # map (\<lambda>i. energy_row (timedelta_hours (int i)) (real i)) [1 ..< 24]"
  by (simp add: day_history_def upt_conv_Cons timedelta_hours_def del: upt_Suc)

lemma day_state_0:
  "state_at model rnd now hz (hd day_history) (tl day_history) 0 =
     init_state (map consumption_kwh day_history)"
  by (simp add: state_at_def day_history_Cons)

lemma day_buffer_0:
  "lag_24_buffer (init_state (map consumption_kwh day_history)) =
     map consumption_kwh day_history"
  by (simp add: init_state_def Let_def last_n_def day_history_def)

lemma day_buffer_hd: "hd (map consumption_kwh day_history) = 0"
  by (simp add: day_history_Cons energy_row_def)

subsection \<open>The 24-hour lag feature\<close>

text \<open>
  C1 (as amended). At every step of the forecast loop, for every history, horizon, model
  and random stream, \<^verbatim>\<open>lag_24h\<close> is the oldest value of the lag-24 buffer when that buffer
  holds 24 entries, and otherwise the current rolling mean, that is the mean of the rolling
  window as it stands at the start of that step (the window already holds the predictions
  of the earlier steps).
\<close>

theorem lag_24h_current_mean:
  "lag_24h_of (state_at model rnd now hz d ds k) =
     (if length (lag_24_buffer (state_at model rnd now hz d ds k)) = 24
      then hd (lag_24_buffer (state_at model rnd now hz d ds k))
      else mean (recent_values (state_at model rnd now hz d ds k)))"
  using state_at_ok [of model rnd now hz d ds k]
  by (auto simp: lag_24h_of_def state_ok_def)

text \<open>Instance: with the 24 readings 0 to 23 as history, the first step takes the oldest
  reading, 0.\<close>

theorem lag_24h_current_mean_witness:
  "length (lag_24_buffer
      (state_at None (\<lambda>_. 0) 0 ''next_hour'' (hd day_history) (tl day_history) 0)) = 24 \<and>
   lag_24h_of (state_at None (\<lambda>_. 0) 0 ''next_hour'' (hd day_history) (tl day_history) 0) = 0"
proof -
  have l: "length (lag_24_buffer
      (state_at None (\<lambda>_. 0) 0 ''next_hour'' (hd day_history) (tl day_history) 0)) = 24"
    by (simp add: day_state_0 day_buffer_0) (simp add: day_history_def)
  then show ?thesis
    using lag_24h_current_mean [of None "\<lambda>_. 0" 0 "''next_hour''" "hd day_history"
        "tl day_history" 0]
    by (simp add: day_state_0 day_buffer_0 day_buffer_hd)
qed

text \<open>
  C1 as stated fails: with the single reading 10 as history and a model that predicts 0,
  the second step of a next-day forecast finds two entries in the buffer and uses 5, the
  mean of 10 and 0, where the rolling mean computed at initialization is 10.
\<close>

theorem lag_24h_seed_mean_counterexample:
  "length (lag_24_buffer
      (state_at (Some (const_model 0)) (\<lambda>_. 0) 0 ''next_day'' (energy_row 0 10) [] 1)) = 2
   \<and> lag_24h_of
      (state_at (Some (const_model 0)) (\<lambda>_. 0) 0 ''next_day'' (energy_row 0 10) [] 1) = 5
   \<and> rolling_mean (init_state (map consumption_kwh [energy_row 0 10])) = 10"
  by (simp add: state_at_def take_1_day Let_def update_state_def push_24_def pred_val_of_def
        const_model_def init_state_def lag_24h_of_def mean_def energy_row_def last_n_def)

subsection \<open>Capacity of the rolling window and of the lag buffer\<close>

text \<open>
  C4. At the start of every step, and after the last one, the rolling window and the lag-24
  buffer hold at most 24 values, for every history, horizon, model and random stream. A
  step appends its prediction to both; a list that already holds 24 values loses its
  oldest one.
\<close>

theorem rolling_buffers_bounded:
  "length (recent_values (state_at model rnd now hz d ds k)) \<le> 24 \<and>
   length (lag_24_buffer (state_at model rnd now hz d ds k)) \<le> 24 \<and>
   (k < length (horizon_steps hz (base_ts_of now d ds)) \<longrightarrow>
      (let st = state_at model rnd now hz d ds k;
           v = pred_val_of model (rnd k) st (horizon_steps hz (base_ts_of now d ds) ! k);
           st' = state_at model rnd now hz d ds (Suc k)
       in recent_values st' =
            (if length (recent_values st) = 24 then tl (recent_values st) @ [v]
             else recent_values st @ [v]) \<and>
          lag_24_buffer st' =
            (if length (lag_24_buffer st) = 24 then tl (lag_24_buffer st) @ [v]
             else lag_24_buffer st @ [v])))"
proof -
  let ?st = "state_at model rnd now hz d ds k"
  have ok: "state_ok ?st" by (rule state_at_ok)
  then have b: "length (recent_values ?st) \<le> 24" "length (lag_24_buffer ?st) \<le> 24"
    by (simp_all add: state_ok_def)
  have "recent_values (update_state ?st v) = push_24 (recent_values ?st) v"
       "lag_24_buffer (update_state ?st v) = push_24 (lag_24_buffer ?st) v" for v
    by (simp_all add: update_state_def Let_def)
  with b show ?thesis
    by (simp add: Let_def state_at_Suc push_24_eq)
qed

text \<open>Instance: with 24 readings as history the buffer is full at the first step, and the
  step drops the oldest reading and appends the prediction 7.\<close>

theorem rolling_buffers_bounded_witness:
  "0 < length (horizon_steps ''next_hour'' (base_ts_of 0 (hd day_history) (tl day_history))) \<and>
   length (lag_24_buffer
     (state_at (Some (const_model 7)) (\<lambda>_. 0) 0 ''next_hour'' (hd day_history) (tl day_history) 0)) = 24 \<and>
   lag_24_buffer
     (state_at (Some (const_model 7)) (\<lambda>_. 0) 0 ''next_hour'' (hd day_history) (tl day_history) (Suc 0)) =
   tl (lag_24_buffer
     (state_at (Some (const_model 7)) (\<lambda>_. 0) 0 ''next_hour'' (hd day_history) (tl day_history) 0)) @ [7]"
proof -
  let ?d = "hd day_history" and ?ds = "tl day_history"
  have len: "length (map consumption_kwh (?d # ?ds)) = 24"
    by (simp add: day_history_Cons)
  have s0: "state_at (Some (const_model 7)) (\<lambda>_. 0) 0 ''next_hour'' ?d ?ds 0 =
              init_state (map consumption_kwh (?d # ?ds))"
    by (simp add: state_at_def)
  have l0: "length (lag_24_buffer (init_state (map consumption_kwh (?d # ?ds)))) = 24"
    using len unfolding init_state_def Let_def last_n_def by simp
  have v: "pred_val_of (Some (const_model 7)) z st ts = 7" for z st ts
    by (simp add: pred_val_of_def const_model_def)
  show ?thesis
    using rolling_buffers_bounded [of "Some (const_model 7)" "\<lambda>_. 0" 0 "''next_hour''" ?d ?ds 0]
      horizon_steps_hour_len l0
    by (simp add: Let_def s0 v)
qed

subsection \<open>The generated steps\<close>

lemma py_range_day: "py_range 1 25 1 = map int [1 ..< 25]"
  by code_simp

lemma py_range_week: "py_range 1 169 4 = map (\<lambda>j. 1 + 4 * int j) [0 ..< 42]"
  by code_simp

lemma predict_timestamps:
  "energy_get_all 10000 db = d # ds \<Longrightarrow>
   map timestamp (predictions (fst (predict model rnd now hz db))) =
     horizon_steps hz (base_ts_of now d ds)"
  by (simp add: predict_Cons Let_def forecast_loop_timestamps)

lemma get_all_single: "energy_get_all 10000 (db_of [r]) = [r]"
  by (simp add: energy_get_all_def db_of_def)

subsection \<open>Number and timestamps of the forecast points\<close>

text \<open>
  C5. For every non-empty history \<open>d # ds\<close> (the readings the service loads), with
  \<open>base\<close> the later of the last loaded timestamp and the current time: horizon
  \<^verbatim>\<open>next_hour\<close> yields exactly one point, at \<open>base + 1h\<close>; \<^verbatim>\<open>next_day\<close> yields exactly 24
  points, at \<open>base + 1h\<close> to \<open>base + 24h\<close> in order; \<^verbatim>\<open>next_7_days\<close> yields exactly 42
  points, at \<open>base + 1h\<close>, \<open>base + 5h\<close> and so on in steps of four hours.
\<close>

theorem horizon_cardinality:
  assumes "energy_get_all 10000 db = d # ds"
  shows "map timestamp (predictions (fst (predict model rnd now ''next_hour'' db))) =
           [base_ts_of now d ds + timedelta_hours 1] \<and>
         map timestamp (predictions (fst (predict model rnd now ''next_day'' db))) =
           map (\<lambda>i. base_ts_of now d ds + timedelta_hours (int i)) [1 ..< 25] \<and>
         map timestamp (predictions (fst (predict model rnd now ''next_7_days'' db))) =
           map (\<lambda>j. base_ts_of now d ds + timedelta_hours (1 + 4 * int j)) [0 ..< 42] \<and>
         length (predictions (fst (predict model rnd now ''next_hour'' db))) = 1 \<and>
         length (predictions (fst (predict model rnd now ''next_day'' db))) = 24 \<and>
         length (predictions (fst (predict model rnd now ''next_7_days'' db))) = 42"
proof -
  let ?b = "base_ts_of now d ds"
  have h: "map timestamp (predictions (fst (predict model rnd now ''next_hour'' db))) =
             [?b + timedelta_hours 1]"
    by (simp add: predict_timestamps [OF assms] horizon_steps_def)
  have dy: "map timestamp (predictions (fst (predict model rnd now ''next_day'' db))) =
             map (\<lambda>i. ?b + timedelta_hours (int i)) [1 ..< 25]"
    by (simp add: predict_timestamps [OF assms] horizon_steps_def py_range_day comp_def
          del: upt_Suc)
  have w: "map timestamp (predictions (fst (predict model rnd now ''next_7_days'' db))) =
             map (\<lambda>j. ?b + timedelta_hours (1 + 4 * int j)) [0 ..< 42]"
    by (simp add: predict_timestamps [OF assms] horizon_steps_def py_range_week comp_def
          del: upt_Suc)
  have l1: "length (predictions (fst (predict model rnd now ''next_hour'' db))) = 1"
    using arg_cong [OF h, of length] by simp
  have l24: "length (predictions (fst (predict model rnd now ''next_day'' db))) = 24"
    using arg_cong [OF dy, of length] by simp
  have l42: "length (predictions (fst (predict model rnd now ''next_7_days'' db))) = 42"
    using arg_cong [OF w, of length] by simp
  from h dy w l1 l24 l42 show ?thesis by blast
qed

text \<open>Instance: one stored reading at time 0, no model, current time 0.\<close>

theorem horizon_cardinality_witness:
  "energy_get_all 10000 (db_of [energy_row 0 10]) = [energy_row 0 10] \<and>
   length (predictions (fst (predict None (\<lambda>_. 0) 0 ''next_hour'' (db_of [energy_row 0 10])))) = 1 \<and>
   length (predictions (fst (predict None (\<lambda>_. 0) 0 ''next_day'' (db_of [energy_row 0 10])))) = 24 \<and>
   length (predictions (fst (predict None (\<lambda>_. 0) 0 ''next_7_days'' (db_of [energy_row 0 10])))) = 42 \<and>
   map timestamp (predictions (fst (predict None (\<lambda>_. 0) 0 ''next_hour'' (db_of [energy_row 0 10])))) =
     [3600000000]"
  using horizon_cardinality [OF get_all_single, of None "\<lambda>_. 0" 0 "energy_row 0 10"]
  by (simp add: get_all_single base_ts_of_def energy_row_def timedelta_hours_def del: upt_Suc)

subsection \<open>Rounding and clamping\<close>

lemma round_half_even_nonneg: "0 \<le> x \<Longrightarrow> 0 \<le> round_half_even x"
  by (auto simp: round_half_even_def Let_def)

lemma py_round_nonneg: "0 \<le> x \<Longrightarrow> 0 \<le> py_round x n"
  by (simp add: py_round_def round_half_even_nonneg)

lemma pred_val_of_nonneg: "0 \<le> pred_val_of model z st ts"
  by (simp add: pred_val_of_def Let_def split: option.splits)

lemma forecast_loop_nonneg:
  "p \<in> set (fst (forecast_loop model rnd i st steps)) \<Longrightarrow> 0 \<le> predicted_value p"
  by (induction steps arbitrary: i st)
     (auto simp: forecast_loop_Cons_fst py_round_nonneg pred_val_of_nonneg
           simp del: forecast_loop.simps(2))

lemma predict_hour_single:
  "predict model rnd now ''next_hour'' (db_of [r]) =
     (\<lparr>horizon = ''next_hour'',
       predictions = [\<lparr>timestamp = max (timestamp r) now + timedelta_hours 1,
                       predicted_value =
                         py_round (pred_val_of model (rnd 0) (init_state [consumption_kwh r])
                                     (max (timestamp r) now + timedelta_hours 1)) 3\<rparr>],
       model_accuracy = (case model of None \<Rightarrow> None
              | Some m \<Rightarrow> (if model_score m \<noteq> None then Some (92 / 100) else None))\<rparr>,
      (db_of [r])\<lparr>prediction_table :=
         [\<lparr>timestamp = max (timestamp r) now + timedelta_hours 1,
           predicted_value =
             py_round (pred_val_of model (rnd 0) (init_state [consumption_kwh r])
                         (max (timestamp r) now + timedelta_hours 1)) 3,
           prediction_horizon = 1\<rparr>]\<rparr>)"
  by (simp add: predict_Cons [OF get_all_single] Let_def horizon_steps_def base_ts_of_def
        horizon_hours_def)

lemma py_round_0: "py_round 0 n = 0"
  by (simp add: py_round_def round_half_even_def)

subsection \<open>Predictions are never negative\<close>

text \<open>
  C6. Every point that \<open>predict\<close> returns has a predicted value of at least 0, with a model
  and without one, for every history, horizon and random stream; a negative raw output of
  the model is replaced by 0.
\<close>

theorem predicted_value_nonneg:
  "(\<forall>p \<in> set (predictions (fst (predict model rnd now hz db))). 0 \<le> predicted_value p) \<and>
   (model_predict m (build_features ts (rolling_mean st) (rolling_std st)
                       (lag_1h_of st) (lag_24h_of st)) < 0
      \<longrightarrow> pred_val_of (Some m) z st ts = 0)"
proof -
  have "0 \<le> predicted_value p"
    if "p \<in> set (predictions (fst (predict model rnd now hz db)))" for p
  proof (cases "energy_get_all 10000 db")
    case Nil
    with that show ?thesis by (simp add: predict_def)
  next
    case (Cons d ds)
    with that show ?thesis
      by (simp add: predict_Cons Let_def forecast_loop_nonneg)
  qed
  then show ?thesis
    by (simp add: pred_val_of_def Let_def)
qed

text \<open>Instance: a model that answers \<open>- 5\<close> yields the single point with value 0.\<close>

theorem predicted_value_nonneg_witness:
  "predictions (fst (predict (Some (const_model (- 5))) (\<lambda>_. 0) 0 ''next_hour''
                       (db_of [energy_row 0 10]))) =
     [\<lparr>timestamp = 3600000000, predicted_value = 0\<rparr>] \<and>
   0 \<le> predicted_value
         (hd (predictions (fst (predict (Some (const_model (- 5))) (\<lambda>_. 0) 0 ''next_hour''
                                  (db_of [energy_row 0 10]))))) \<and>
   model_predict (const_model (- 5))
     (build_features 0 (rolling_mean (init_state [10])) (rolling_std (init_state [10]))
        (lag_1h_of (init_state [10])) (lag_24h_of (init_state [10]))) < 0 \<and>
   pred_val_of (Some (const_model (- 5))) 0 (init_state [10]) 0 = 0"
proof -
  let ?ps = "predictions (fst (predict (Some (const_model (- 5))) (\<lambda>_. 0) 0 ''next_hour''
                                 (db_of [energy_row 0 10])))"
  have v: "pred_val_of (Some (const_model (- 5))) z st ts = 0" for z st ts
    by (simp add: pred_val_of_def const_model_def)
  have a: "?ps = [\<lparr>timestamp = 3600000000, predicted_value = 0\<rparr>]"
    by (simp add: predict_hour_single v py_round_0 energy_row_def timedelta_hours_def)
  then have m: "hd ?ps \<in> set ?ps" by simp
  have n: "model_predict (const_model (- 5)) fs < 0" for fs
    by (simp add: const_model_def)
  note t = predicted_value_nonneg [of "Some (const_model (- 5))" "\<lambda>_. 0" 0 "''next_hour''"
        "db_of [energy_row 0 10]" "const_model (- 5)" 0 "init_state [10]" 0]
  from t m have "0 \<le> predicted_value (hd ?ps)" by blast
  moreover from t n have "pred_val_of (Some (const_model (- 5))) 0 (init_state [10]) 0 = 0"
    by blast
  ultimately show ?thesis using a n by blast
qed

subsection \<open>The reported model accuracy\<close>

text \<open>
  C3 does not hold of the code: whenever the model has an attribute \<^verbatim>\<open>score\<close>, the reported
  accuracy is the constant 0.92, whatever metric the model reports. Here two models that
  report 0.5 and 0.99 both come back with 0.92.
\<close>

theorem placeholder_accuracy:
  "model_accuracy (fst (predict (Some \<lparr>model_predict = (\<lambda>_. 3), model_score = Some (1 / 2)\<rparr>)
                          (\<lambda>_. 0) 0 ''next_hour'' (db_of [energy_row 0 10]))) = Some (92 / 100) \<and>
   model_accuracy (fst (predict (Some \<lparr>model_predict = (\<lambda>_. 3), model_score = Some (99 / 100)\<rparr>)
                          (\<lambda>_. 0) 0 ''next_hour'' (db_of [energy_row 0 10]))) = Some (92 / 100)"
  by (simp add: predict_hour_single)

subsection \<open>Lemmas on the anomaly scorer\<close>

lemma map_snd_zip_fun:
  "length xs = length ys \<Longrightarrow> map (\<lambda>p. f (snd p)) (zip xs ys) = map f ys"
  using map_map [of f snd "zip xs ys"] by (simp add: comp_def)

lemma map_fst_zip_fun:
  "length xs = length ys \<Longrightarrow> map (\<lambda>p. f (fst p)) (zip xs ys) = map f xs"
  using map_map [of f fst "zip xs ys"] by (simp add: comp_def)

lemma length_score_rows: "length (score_rows model xs) = length xs"
  by (simp add: score_rows_def z_scores_of_def Let_def split: option.splits)

lemma length_anomaly_records: "length (anomaly_records model xs) = length xs"
  by (simp add: anomaly_records_def length_score_rows)

lemma anomaly_records_flags:
  "map is_anomaly (anomaly_records model xs) = map fst (score_rows model xs)"
  by (simp add: anomaly_records_def case_prod_beta comp_def length_score_rows
        flip: map_map [of fst snd, unfolded comp_def] zip_map_fst_snd)

lemma anomaly_records_timestamps:
  "map timestamp (anomaly_records model xs) = map timestamp xs"
proof -
  have "map timestamp (anomaly_records model xs) =
          map (timestamp \<circ> fst) (zip xs (score_rows model xs))"
    by (simp add: anomaly_records_def case_prod_beta comp_def)
  also have "\<dots> = map timestamp (map fst (zip xs (score_rows model xs)))" by simp
  also have "\<dots> = map timestamp xs" by (simp add: length_score_rows)
  finally show ?thesis .
qed

lemma anomaly_records_consumption:
  "map consumption (anomaly_records model xs) = map consumption_kwh xs"
proof -
  have "map consumption (anomaly_records model xs) =
          map (consumption_kwh \<circ> fst) (zip xs (score_rows model xs))"
    by (simp add: anomaly_records_def case_prod_beta comp_def)
  also have "\<dots> = map consumption_kwh (map fst (zip xs (score_rows model xs)))" by simp
  also have "\<dots> = map consumption_kwh xs" by (simp add: length_score_rows)
  finally show ?thesis .
qed

lemma count_true_filter: "count_true (map p xs) = int (length (filter p xs))"
  by (induction xs) (simp_all add: count_true_def)

lemma count_true_records:
  "count_true (map fst (score_rows model xs)) =
     int (length (filter is_anomaly (anomaly_records model xs)))"
  using count_true_filter [of is_anomaly "anomaly_records model xs"]
  by (simp add: anomaly_records_flags)

lemma truncate_responses:
  "map anomaly_data_create.truncate (anomaly_responses rs) = filter is_anomaly rs"
proof -
  let ?ids = "[1 ..< Suc (length (filter is_anomaly rs))]"
  have "map anomaly_data_create.truncate (anomaly_responses rs) =
          map (\<lambda>p. anomaly_data_create.truncate (snd p)) (zip ?ids (filter is_anomaly rs))"
    by (simp add: anomaly_responses_def case_prod_beta comp_def
          anomaly_data_create.truncate_def del: upt_Suc)
  also have "\<dots> = map anomaly_data_create.truncate (filter is_anomaly rs)"
    by (rule map_snd_zip_fun) (simp del: upt_Suc)
  also have "\<dots> = filter is_anomaly rs"
    by (rule map_idI) (simp add: anomaly_data_create.truncate_def)
  finally show ?thesis .
qed

lemma id_no_responses:
  "map id_no (anomaly_responses rs) = map int [1 ..< Suc (length (filter is_anomaly rs))]"
proof -
  let ?ids = "[1 ..< Suc (length (filter is_anomaly rs))]"
  have "map id_no (anomaly_responses rs) =
          map (\<lambda>p. int (fst p)) (zip ?ids (filter is_anomaly rs))"
    by (simp add: anomaly_responses_def case_prod_beta comp_def del: upt_Suc)
  also have "\<dots> = map int ?ids"
    by (rule map_fst_zip_fun) (simp del: upt_Suc)
  finally show ?thesis .
qed

lemma anomaly_records_Nil: "anomaly_records model xs = [] \<longleftrightarrow> xs = []"
  using length_anomaly_records [of model xs] by (metis length_0_conv)

lemma detect_Cons:
  "energy_get_all 10000 db = d # ds \<Longrightarrow>
   detect_and_store model db =
     (\<lparr>total_records = int (length (d # ds)),
       total_anomalies = int (length (filter is_anomaly (anomaly_records model (d # ds)))),
       anomaly_rate =
         py_round (of_int (int (length (filter is_anomaly (anomaly_records model (d # ds)))))
                     / of_int (int (length (d # ds))) * 100) 2,
       anomalies = anomaly_responses (anomaly_records model (d # ds))\<rparr>,
      db\<lparr>anomaly_table := anomaly_records model (d # ds)\<rparr>)"
  by (simp add: detect_and_store_def Let_def count_true_records length_anomaly_records
        anomaly_records_Nil anomaly_create_bulk_def anomaly_delete_all_def)

lemma detect_Nil:
  "energy_table db = [] \<Longrightarrow>
   detect_and_store model db =
     (\<lparr>total_records = 0, total_anomalies = 0, anomaly_rate = 0, anomalies = []\<rparr>, db)"
  using energy_get_all_Nil [of db] by (simp add: detect_and_store_def)






lemma get_all_three: "energy_get_all 10000 (db_of three_readings) = three_readings"
  by (simp add: energy_get_all_def db_of_def three_readings_def energy_row_def)

lemma three_records:
  "anomaly_records (Some threshold_clf) three_readings =
     [\<lparr>timestamp = 0, consumption = 1, is_anomaly = False, anomaly_score = Some 4\<rparr>,
      \<lparr>timestamp = 3600000000, consumption = 10, is_anomaly = True, anomaly_score = Some (- 5)\<rparr>,
      \<lparr>timestamp = 7200000000, consumption = 2, is_anomaly = False, anomaly_score = Some 3\<rparr>]"
  by (simp add: anomaly_records_def score_rows_def threshold_clf_def three_readings_def
        anomaly_features_def energy_row_def)



subsection \<open>The anomaly rate\<close>



subsection \<open>The returned anomalies\<close>

text \<open>
  C10. The \<open>anomalies\<close> of the response are exactly the records whose flag is set, in
  the order of the readings (the records themselves follow the readings one by one), so
  their number is \<open>total_anomalies\<close>; \<open>total_records\<close> counts every reading, and every
  record, flagged or not, is stored.
\<close>

theorem anomalies_are_flagged_records:
  "map anomaly_data_create.truncate (anomalies (fst (detect_and_store model db))) =
     filter is_anomaly (anomaly_records model (energy_get_all 10000 db)) \<and>
   map timestamp (anomaly_records model (energy_get_all 10000 db)) =
     map timestamp (energy_get_all 10000 db) \<and>
   map consumption (anomaly_records model (energy_get_all 10000 db)) =
     map consumption_kwh (energy_get_all 10000 db) \<and>
   int (length (anomalies (fst (detect_and_store model db)))) =
     total_anomalies (fst (detect_and_store model db)) \<and>
   total_records (fst (detect_and_store model db)) = int (length (energy_get_all 10000 db)) \<and>
   anomaly_table (snd (detect_and_store model db)) =
     (if energy_table db = [] then anomaly_table db
      else anomaly_records model (energy_get_all 10000 db))"
proof (cases "energy_get_all 10000 db")
  case Nil
  then have e: "energy_table db = []" by (simp add: energy_get_all_Nil)
  show ?thesis
    by (simp add: detect_Nil [OF e] Nil e anomaly_records_def)
next
  case (Cons d ds)
  then have e: "energy_table db \<noteq> []" using energy_get_all_Nil [of db] by simp
  have len: "length (anomalies (fst (detect_and_store model db))) =
               length (filter is_anomaly (anomaly_records model (d # ds)))"
    using arg_cong [OF truncate_responses [of "anomaly_records model (d # ds)"], of length]
    by (simp add: detect_Cons [OF Cons])
  show ?thesis
    using len
    by (simp add: detect_Cons [OF Cons] Cons e truncate_responses
          anomaly_records_timestamps anomaly_records_consumption)
qed

text \<open>Instance: of three readings only the flagged one is returned; all three are stored.\<close>

theorem anomalies_are_flagged_records_witness:
  "anomalies (fst (detect_and_store (Some threshold_clf) (db_of three_readings))) =
     [\<lparr>timestamp = 3600000000, consumption = 10, is_anomaly = True, anomaly_score = Some (- 5),
       id_no = 1\<rparr>] \<and>
   total_records (fst (detect_and_store (Some threshold_clf) (db_of three_readings))) = 3 \<and>
   total_anomalies (fst (detect_and_store (Some threshold_clf) (db_of three_readings))) = 1 \<and>
   length (anomaly_table (snd (detect_and_store (Some threshold_clf) (db_of three_readings)))) = 3"
proof -
  have g: "energy_get_all 10000 (db_of three_readings) = energy_row 0 1 # tl three_readings"
    by (simp add: get_all_three) (simp add: three_readings_def)
  have a: "anomalies (fst (detect_and_store (Some threshold_clf) (db_of three_readings))) =
     [\<lparr>timestamp = 3600000000, consumption = 10, is_anomaly = True, anomaly_score = Some (- 5),
       id_no = 1\<rparr>]"
    using three_records
    by (simp add: detect_Cons [OF g] anomaly_responses_def) (simp add: three_readings_def)
  show ?thesis
    using anomalies_are_flagged_records [of "Some threshold_clf" "db_of three_readings"] a
    by (simp add: get_all_three three_records) (simp add: db_of_def three_readings_def)
qed

subsection \<open>The standard deviation and the z-scores\<close>
















subsection \<open>The z-score fallback of the anomaly scorer\<close>




subsection \<open>Tables that a run leaves alone; the daily sums\<close>









subsection \<open>Stored results are replaced\<close>




subsection \<open>The trend label\<close>




end
